theory Spec2Isabelle
  imports Main "HOL-Library.Word" "HOL-Library.Signed_Division" "HOL-Library.Sublist"
begin

unbundle bit_operations_syntax

section \<open>Machine types and errors\<close>

text \<open>
  Go's \<open>byte\<close>, \<open>int64\<close>, \<open>int32\<close> and \<open>uint32\<close> are words of that width; arithmetic on
  them wraps. Signed readings go through \<open>sint\<close>, unsigned ones through \<open>uint\<close>/\<open>unat\<close>.
  A \<open>[]byte\<close> is a list of bytes. Digests have a fixed width in the libraries
  (\<open>[32]byte\<close> for SHA-256 and \<open>chainhash.Hash\<close>, 20 bytes for HASH160): they are
  words of 256 and 160 bits, read as byte strings by \<open>bytesOf\<close>.
\<close>

type_synonym byte = "8 word"
type_synonym int64 = "64 word"
type_synonym int32 = "32 word"
type_synonym uint32 = "32 word"
type_synonym hash256 = "256 word"
type_synonym hash160 = "160 word"

definition bytesOf :: "'a::len word \<Rightarrow> byte list" where
  "bytesOf w = map (\<lambda>i. ucast (drop_bit (8 * i) w)) (rev [0..<LENGTH('a) div 8])"

text \<open>
  Every error the modelled code returns is a value. The constructors follow the
  messages of the \<open>fmt.Errorf\<close> calls; a wrapped error (\<open>%w\<close>) keeps its cause. A Go
  run-time panic is the value \<open>RuntimePanic\<close>, which no wrapper changes.
\<close>

datatype error =
    ErrScriptNotCanonical
  | ErrUnsupportedAddress
  | ErrLibrary nat
  | RuntimePanic
  | FailedToBuildRedeemScript error
  | RedeemScriptEmpty
  | OwnerKeyNot33Bytes
  | InheritorKeyNot33Bytes
  | TimelockNotPositive
  | InsufficientFunds
  | FailedToCreateDestinationScript error
  | FailedToCreateP2WSHScript error
  | FailedToCalculateSignatureHash error
  | TransactionIsNil
  | TransactionHasNoInputs
  | TransactionHasNoOutputs
  | TransactionHasNegativeOutputValue

definition wrapErr :: "(error \<Rightarrow> error) \<Rightarrow> error \<Rightarrow> error" where
  "wrapErr f e = (if e = RuntimePanic then RuntimePanic else f e)"

text \<open>Go's \<open>/\<close> on \<open>int64\<close> truncates towards zero; the quotient is stored in 64 bits.\<close>

definition int64_quot :: "int64 \<Rightarrow> int64 \<Rightarrow> int64" where
  "int64_quot a b = word_of_int (sint a sdiv sint b)"

section \<open>The script builder of the txscript library\<close>

text \<open>
  \<open>buildRedeemScript\<close> is written against \<open>txscript.ScriptBuilder\<close>. The builder holds the
  script built so far and the first error; once an error is set every later call
  leaves the builder as it is, and \<open>Script\<close> returns the error.
\<close>

definition OP_0 :: byte where "OP_0 = 0x00"
definition OP_DATA_1 :: byte where "OP_DATA_1 = 0x01"
definition OP_DATA_75 :: byte where "OP_DATA_75 = 0x4b"
definition OP_PUSHDATA1 :: byte where "OP_PUSHDATA1 = 0x4c"
definition OP_PUSHDATA2 :: byte where "OP_PUSHDATA2 = 0x4d"
definition OP_PUSHDATA4 :: byte where "OP_PUSHDATA4 = 0x4e"
definition OP_1NEGATE :: byte where "OP_1NEGATE = 0x4f"
definition OP_1 :: byte where "OP_1 = 0x51"
definition OP_16 :: byte where "OP_16 = 0x60"
definition OP_IF :: byte where "OP_IF = 0x63"
definition OP_ELSE :: byte where "OP_ELSE = 0x67"
definition OP_ENDIF :: byte where "OP_ENDIF = 0x68"
definition OP_DROP :: byte where "OP_DROP = 0x75"
definition OP_DUP :: byte where "OP_DUP = 0x76"
definition OP_EQUAL :: byte where "OP_EQUAL = 0x87"
definition OP_EQUALVERIFY :: byte where "OP_EQUALVERIFY = 0x88"
definition OP_HASH160 :: byte where "OP_HASH160 = 0xa9"
definition OP_CHECKSIG :: byte where "OP_CHECKSIG = 0xac"
definition OP_CHECKSEQUENCEVERIFY :: byte where "OP_CHECKSEQUENCEVERIFY = 0xb2"

lemmas opcode_defs =
  OP_0_def OP_DATA_1_def OP_DATA_75_def OP_PUSHDATA1_def OP_PUSHDATA2_def OP_PUSHDATA4_def
  OP_1NEGATE_def OP_1_def OP_16_def OP_IF_def OP_ELSE_def OP_ENDIF_def OP_DROP_def
  OP_DUP_def OP_EQUAL_def OP_EQUALVERIFY_def OP_HASH160_def OP_CHECKSIG_def
  OP_CHECKSEQUENCEVERIFY_def

definition MaxScriptSize :: nat where "MaxScriptSize = 10000"
definition MaxScriptElementSize :: nat where "MaxScriptElementSize = 520"

record ScriptBuilder =
  script :: "byte list"
  err :: "error option"

definition NewScriptBuilder :: ScriptBuilder where
  "NewScriptBuilder = \<lparr>script = [], err = None\<rparr>"

definition AddOp :: "byte \<Rightarrow> ScriptBuilder \<Rightarrow> ScriptBuilder" where
  "AddOp opcode b =
     (if err b \<noteq> None then b
      else if length (script b) + 1 > MaxScriptSize
        then b\<lparr>err := Some ErrScriptNotCanonical\<rparr>
      else b\<lparr>script := script b @ [opcode]\<rparr>)"

definition canonicalDataSize :: "byte list \<Rightarrow> nat" where
  "canonicalDataSize data =
     (let dataLen = length data in
      if dataLen = 0 then 1
      else if dataLen = 1 \<and> hd data \<le> 16 then 1
      else if dataLen = 1 \<and> hd data = 0x81 then 1
      else if dataLen < unat OP_PUSHDATA1 then 1 + dataLen
      else if dataLen \<le> 0xff then 2 + dataLen
      else if dataLen \<le> 0xffff then 3 + dataLen
      else 5 + dataLen)"

text \<open>The length prefix of a push, little endian, as \<open>binary.LittleEndian\<close> writes it.\<close>

definition putUint16 :: "nat \<Rightarrow> byte list" where
  "putUint16 n = [of_nat n, of_nat (n div 256)]"

definition putUint32 :: "nat \<Rightarrow> byte list" where
  "putUint32 n = [of_nat n, of_nat (n div 256), of_nat (n div 65536), of_nat (n div 16777216)]"

definition addData :: "byte list \<Rightarrow> ScriptBuilder \<Rightarrow> ScriptBuilder" where
  "addData data b =
     (let dataLen = length data in
      if dataLen = 0 \<or> (dataLen = 1 \<and> hd data = 0)
        then b\<lparr>script := script b @ [OP_0]\<rparr>
      else if dataLen = 1 \<and> hd data \<le> 16
        then b\<lparr>script := script b @ [(OP_1 - 1) + hd data]\<rparr>
      else if dataLen = 1 \<and> hd data = 0x81
        then b\<lparr>script := script b @ [OP_1NEGATE]\<rparr>
      else if dataLen < unat OP_PUSHDATA1
        then b\<lparr>script := script b @ [(OP_DATA_1 - 1) + of_nat dataLen] @ data\<rparr>
      else if dataLen \<le> 0xff
        then b\<lparr>script := script b @ [OP_PUSHDATA1, of_nat dataLen] @ data\<rparr>
      else if dataLen \<le> 0xffff
        then b\<lparr>script := script b @ [OP_PUSHDATA2] @ putUint16 dataLen @ data\<rparr>
      else b\<lparr>script := script b @ [OP_PUSHDATA4] @ putUint32 dataLen @ data\<rparr>)"

definition AddData :: "byte list \<Rightarrow> ScriptBuilder \<Rightarrow> ScriptBuilder" where
  "AddData data b =
     (if err b \<noteq> None then b
      else if length (script b) + canonicalDataSize data > MaxScriptSize
        then b\<lparr>err := Some ErrScriptNotCanonical\<rparr>
      else if length data > MaxScriptElementSize
        then b\<lparr>err := Some ErrScriptNotCanonical\<rparr>
      else addData data b)"

subsection \<open>Script numbers\<close>

text \<open>
  \<open>scriptNum.Bytes\<close>: the magnitude in little-endian bytes, the sign in the top bit of
  the last byte, with one more byte when that bit is already taken. The loop
  \<open>for n > 0 { result = append(result, byte(n&0xff)); n >>= 8 }\<close> runs on the signed
  64-bit value. For the least \<open>int64\<close> the negation wraps to itself, the loop does not
  run, and indexing the last byte of the empty result panics.
\<close>

function scriptNumLoop :: "int64 \<Rightarrow> byte list" where
  "scriptNumLoop n =
     (if 0 < sint n then ucast (n AND 0xff) # scriptNumLoop (signed_drop_bit 8 n) else [])"
  by pat_completeness auto
termination
proof (relation "measure (\<lambda>n. nat (sint n))")
  show "wf (measure (\<lambda>n::int64. nat (sint n)))" by simp
next
  fix n :: int64
  assume pos: "0 < sint n"
  have "sint (signed_drop_bit 8 n) = sint n div 2 ^ 8"
    by (simp add: sint_signed_drop_bit_eq drop_bit_eq_div)
  also have "\<dots> < sint n"
    using pos by (simp add: int_div_less_self)
  finally show "(signed_drop_bit 8 n, n) \<in> measure (\<lambda>n. nat (sint n))"
    using pos by simp
qed

declare scriptNumLoop.simps [simp del]

definition scriptNumBytes :: "int64 \<Rightarrow> error + byte list" where
  "scriptNumBytes n0 =
     (if n0 = 0 then Inr []
      else
        let isNegative = sint n0 < 0;
            n = (if isNegative then - n0 else n0);
            result = scriptNumLoop n
        in if result = [] then Inl RuntimePanic
           else if last result AND 0x80 \<noteq> 0
             then Inr (result @ [if isNegative then 0x80 else 0x00])
           else if isNegative
             then Inr (butlast result @ [last result OR 0x80])
           else Inr result)"

definition AddInt64 :: "int64 \<Rightarrow> ScriptBuilder \<Rightarrow> ScriptBuilder" where
  "AddInt64 val b =
     (if err b \<noteq> None then b
      else if length (script b) + 1 > MaxScriptSize
        then b\<lparr>err := Some ErrScriptNotCanonical\<rparr>
      else if val = 0
        then b\<lparr>script := script b @ [OP_0]\<rparr>
      else if val = - 1 \<or> (1 \<le> sint val \<and> sint val \<le> 16)
        then b\<lparr>script := script b @ [ucast (ucast (OP_1 - 1) + val)]\<rparr>
      else case scriptNumBytes val of
             Inl p \<Rightarrow> b\<lparr>err := Some p\<rparr>
           | Inr data \<Rightarrow> AddData data b)"

definition Script :: "ScriptBuilder \<Rightarrow> error + byte list" where
  "Script b = (case err b of None \<Rightarrow> Inr (script b) | Some e \<Rightarrow> Inl e)"

section \<open>The inheritance script\<close>

text \<open>
  \<open>calculateRelativeTimelock\<close>: days to seconds (wrapping multiplication), seconds to
  512-second intervals (truncating division), bit 22 set.
\<close>

definition calculateRelativeTimelock :: "int64 \<Rightarrow> int64" where
  "calculateRelativeTimelock days =
     (let totalSeconds = days * 24 * 60 * 60;
          intervals = int64_quot totalSeconds 512
      in intervals OR 0x400000)"

definition buildRedeemScript :: "byte list \<Rightarrow> byte list \<Rightarrow> int64 \<Rightarrow> error + byte list" where
  "buildRedeemScript ownerPubKey inheritorPubKey relativeTimelock =
     (let builder = NewScriptBuilder;
          builder = AddOp OP_IF builder;
          builder = AddData ownerPubKey builder;
          builder = AddOp OP_CHECKSIG builder;
          builder = AddOp OP_ELSE builder;
          builder = AddInt64 relativeTimelock builder;
          builder = AddOp OP_CHECKSEQUENCEVERIFY builder;
          builder = AddOp OP_DROP builder;
          builder = AddData inheritorPubKey builder;
          builder = AddOp OP_CHECKSIG builder;
          builder = AddOp OP_ENDIF builder
      in Script builder)"

record InheritanceScript =
  OwnerPubKey :: "byte list"
  InheritorPubKey :: "byte list"
  RelativeTimelock :: int64
  RedeemScript :: "byte list"

definition NewInheritanceScript :: "byte list \<Rightarrow> byte list \<Rightarrow> int64 \<Rightarrow> error + InheritanceScript" where
  "NewInheritanceScript ownerPubKey inheritorPubKey timelockDays =
     (let relativeTimelock = calculateRelativeTimelock timelockDays in
      case buildRedeemScript ownerPubKey inheritorPubKey relativeTimelock of
        Inl e \<Rightarrow> Inl (wrapErr FailedToBuildRedeemScript e)
      | Inr redeemScript \<Rightarrow>
          Inr \<lparr>OwnerPubKey = ownerPubKey, InheritorPubKey = inheritorPubKey,
               RelativeTimelock = relativeTimelock, RedeemScript = redeemScript\<rparr>)"

definition ValidateScript :: "InheritanceScript \<Rightarrow> error + unit" where
  "ValidateScript is =
     (if length (RedeemScript is) = 0 then Inl RedeemScriptEmpty
      else if length (OwnerPubKey is) \<noteq> 33 then Inl OwnerKeyNot33Bytes
      else if length (InheritorPubKey is) \<noteq> 33 then Inl InheritorKeyNot33Bytes
      else if sint (RelativeTimelock is) \<le> 0 then Inl TimelockNotPositive
      else Inr ())"


section \<open>Reading a script back: the tokenizer and script-number decoder of txscript\<close>

text \<open>
  \<open>ScriptTokenizer.Next\<close> splits a script into opcodes with their pushed data:
  opcodes \<open>0x01\<close> to \<open>0x4b\<close> carry that many bytes, \<open>OP_PUSHDATA1/2/4\<close> carry a
  little-endian length of 1, 2 or 4 bytes and then the data, every other opcode stands
  alone. A push that runs past the end of the script is malformed (\<open>None\<close>).
\<close>

datatype token = Token (opcode: byte) (pushed: "byte list")

definition lengthPrefix :: "byte \<Rightarrow> nat" where
  "lengthPrefix opc =
     (if opc = OP_PUSHDATA1 then 1 else if opc = OP_PUSHDATA2 then 2
      else if opc = OP_PUSHDATA4 then 4 else 0)"

fun littleEndian :: "byte list \<Rightarrow> nat" where
  "littleEndian [] = 0"
| "littleEndian (x # xs) = unat x + 256 * littleEndian xs"

function tokenize :: "byte list \<Rightarrow> token list option" where
  "tokenize [] = Some []"
| "tokenize (opc # rest) =
     (let k = lengthPrefix opc in
      if length rest < k then None
      else
        let dataLen = (if k = 0
                       then (if OP_DATA_1 \<le> opc \<and> opc \<le> OP_DATA_75 then unat opc else 0)
                       else littleEndian (take k rest));
            body = drop k rest
        in if dataLen > length body \<or> dataLen \<ge> 2 ^ 31 then None
           else map_option (Cons (Token opc (take dataLen body)))
                  (tokenize (drop dataLen body)))"
  by pat_completeness auto
termination
  by (relation "measure length") auto

text \<open>
  What a push token leaves on the stack when the script runs: \<open>OP_0\<close> the empty
  string, \<open>OP_1NEGATE\<close> and \<open>OP_1\<close> to \<open>OP_16\<close> the script number of their value, a data
  push its data.
\<close>

definition stackItem :: "token \<Rightarrow> byte list" where
  "stackItem t =
     (if opcode t = OP_0 then []
      else if opcode t = OP_1NEGATE then [0x81]
      else if OP_1 \<le> opcode t \<and> opcode t \<le> OP_16 then [opcode t - (OP_1 - 1)]
      else pushed t)"

text \<open>
  \<open>MakeScriptNum\<close> reads a stack item as a number, as \<open>OP_CHECKSEQUENCEVERIFY\<close> does
  with its operand; \<open>checkMinimalDataEncoding\<close> refuses an encoding with a byte more
  than needed.
\<close>

definition checkMinimalDataEncoding :: "byte list \<Rightarrow> bool" where
  "checkMinimalDataEncoding v =
     (if length v = 0 then True
      else if last v AND 0x7f = 0
        then \<not> (length v = 1 \<or> (v ! (length v - 2)) AND 0x80 = 0)
      else True)"

fun decodeLoop :: "nat \<Rightarrow> byte list \<Rightarrow> int64 \<Rightarrow> int64" where
  "decodeLoop i [] result = result"
| "decodeLoop i (val # vs) result =
     decodeLoop (i + 1) vs (result OR push_bit ((8 * i) mod 256) (ucast val))"

datatype numError = ErrNumberTooBig | ErrMinimalData

definition MakeScriptNum :: "byte list \<Rightarrow> bool \<Rightarrow> nat \<Rightarrow> numError + int64" where
  "MakeScriptNum v requireMinimal scriptNumLen =
     (if length v > scriptNumLen then Inl ErrNumberTooBig
      else if requireMinimal \<and> \<not> checkMinimalDataEncoding v then Inl ErrMinimalData
      else if length v = 0 then Inr 0
      else
        let result = decodeLoop 0 v 0 in
        if last v AND 0x80 \<noteq> 0
        then Inr (- (result AND NOT (push_bit ((8 * (length v - 1)) mod 256) 0x80)))
        else Inr result)"

section \<open>Transactions\<close>

text \<open>
  The \<open>wire\<close> types as records. Inputs and outputs are held by value: the builders
  below create each input afresh, so no two entries of a transaction share storage.
  The pointers the source passes (\<open>*UTXO\<close>, \<open>*chainhash.Hash\<close>, \<open>*wire.MsgTx\<close>) are
  taken to be non-nil, except in \<open>ValidateTransaction\<close>, which tests for \<open>nil\<close>.
\<close>

record OutPoint =
  Hash :: hash256
  Index :: uint32

record TxIn =
  PreviousOutPoint :: OutPoint
  SignatureScript :: "byte list"
  Witness :: "byte list list"
  Sequence :: uint32

record TxOut =
  Value :: int64
  PkScript :: "byte list"

record MsgTx =
  Version :: int32
  TxIn :: "TxIn list"
  TxOut :: "TxOut list"
  LockTime :: uint32

definition TxVersion :: int32 where "TxVersion = 1"
definition MaxTxInSequenceNum :: uint32 where "MaxTxInSequenceNum = 0xffffffff"
definition SequenceLockTimeDisabled :: uint32 where "SequenceLockTimeDisabled = push_bit 31 1"
definition SigHashAll :: uint32 where "SigHashAll = 0x1"

definition NewMsgTx :: "int32 \<Rightarrow> MsgTx" where
  "NewMsgTx version = \<lparr>Version = version, TxIn = [], TxOut = [], LockTime = 0\<rparr>"

definition NewOutPoint :: "hash256 \<Rightarrow> uint32 \<Rightarrow> OutPoint" where
  "NewOutPoint hash index = \<lparr>Hash = hash, Index = index\<rparr>"

definition NewTxIn :: "OutPoint \<Rightarrow> byte list \<Rightarrow> byte list list \<Rightarrow> TxIn" where
  "NewTxIn prevOut signatureScript witness =
     \<lparr>PreviousOutPoint = prevOut, SignatureScript = signatureScript,
      Witness = witness, Sequence = MaxTxInSequenceNum\<rparr>"

definition NewTxOut :: "int64 \<Rightarrow> byte list \<Rightarrow> TxOut" where
  "NewTxOut value pkScript = \<lparr>Value = value, PkScript = pkScript\<rparr>"

definition AddTxIn :: "TxIn \<Rightarrow> MsgTx \<Rightarrow> MsgTx" where
  "AddTxIn ti msg = msg\<lparr>TxIn := TxIn msg @ [ti]\<rparr>"

definition AddTxOut :: "TxOut \<Rightarrow> MsgTx \<Rightarrow> MsgTx" where
  "AddTxOut to msg = msg\<lparr>TxOut := TxOut msg @ [to]\<rparr>"

subsection \<open>Destination addresses\<close>

text \<open>
  \<open>btcutil.Address\<close> is an interface; \<open>txscript.PayToAddrScript\<close> switches on the
  concrete type and fails with \<open>ErrUnsupportedAddress\<close> on \<open>nil\<close> and on any other
  type. The hashes inside an address have a fixed length.
\<close>

datatype Address =
    AddressPubKeyHash hash160
  | AddressScriptHash hash160
  | AddressPubKey "byte list"
  | AddressWitnessPubKeyHash hash160
  | AddressWitnessScriptHash hash256
  | AddressTaproot hash256
  | AddressOfOtherType

fun PayToAddrScript :: "Address option \<Rightarrow> error + byte list" where
  "PayToAddrScript None = Inl ErrUnsupportedAddress"
| "PayToAddrScript (Some (AddressPubKeyHash h)) =
     Script (AddOp OP_CHECKSIG (AddOp OP_EQUALVERIFY (AddData (bytesOf h)
       (AddOp OP_HASH160 (AddOp OP_DUP NewScriptBuilder)))))"
| "PayToAddrScript (Some (AddressScriptHash h)) =
     Script (AddOp OP_EQUAL (AddData (bytesOf h) (AddOp OP_HASH160 NewScriptBuilder)))"
| "PayToAddrScript (Some (AddressPubKey serializedPubKey)) =
     Script (AddOp OP_CHECKSIG (AddData serializedPubKey NewScriptBuilder))"
| "PayToAddrScript (Some (AddressWitnessPubKeyHash h)) =
     Script (AddData (bytesOf h) (AddOp OP_0 NewScriptBuilder))"
| "PayToAddrScript (Some (AddressWitnessScriptHash h)) =
     Script (AddData (bytesOf h) (AddOp OP_0 NewScriptBuilder))"
| "PayToAddrScript (Some (AddressTaproot h)) =
     Script (AddData (bytesOf h) (AddOp OP_1 NewScriptBuilder))"
| "PayToAddrScript (Some AddressOfOtherType) = Inl ErrUnsupportedAddress"

subsection \<open>Hashing and signing\<close>

text \<open>
  The hash functions, the signature-hash computation and ECDSA are those of the
  libraries; the model takes them as parameters. \<open>NewTxSigHashes\<close> caches digests that
  are a function of the transaction and of the previous outputs handed to it, so the
  cache is represented by that pair. \<open>SignSerialize\<close> is \<open>ecdsa.Sign\<close> followed by
  \<open>Serialize\<close> (the DER bytes of the signature).
\<close>

type_synonym PrevOutFetcher = "OutPoint \<rightharpoonup> TxOut"
type_synonym TxSigHashes = "MsgTx \<times> PrevOutFetcher"

record 'key Library =
  Hash160 :: "byte list \<Rightarrow> hash160"
  Sum256 :: "byte list \<Rightarrow> hash256"
  CalcWitnessSigHash ::
    "byte list \<Rightarrow> TxSigHashes \<Rightarrow> uint32 \<Rightarrow> MsgTx \<Rightarrow> nat \<Rightarrow> int64 \<Rightarrow> error + byte list"
  SignSerialize :: "'key \<Rightarrow> byte list \<Rightarrow> byte list"

definition NewMultiPrevOutFetcher :: PrevOutFetcher where
  "NewMultiPrevOutFetcher = Map.empty"

definition AddPrevOut :: "OutPoint \<Rightarrow> TxOut \<Rightarrow> PrevOutFetcher \<Rightarrow> PrevOutFetcher" where
  "AddPrevOut op txOut f = f(op \<mapsto> txOut)"

definition NewTxSigHashes :: "MsgTx \<Rightarrow> PrevOutFetcher \<Rightarrow> TxSigHashes" where
  "NewTxSigHashes tx f = (tx, f)"

subsection \<open>The script package's commitment\<close>

text \<open>
  \<open>GetScriptHash\<close> and \<open>GetScriptPubKey\<close>: the single SHA-256 of the redeem script, and
  the pay-to-witness-script-hash output script of the address made from it.
\<close>

definition GetScriptHash :: "'key Library \<Rightarrow> InheritanceScript \<Rightarrow> byte list" where
  "GetScriptHash lib is = bytesOf (Sum256 lib (RedeemScript is))"

definition GetP2WSHAddress :: "'key Library \<Rightarrow> InheritanceScript \<Rightarrow> Address" where
  "GetP2WSHAddress lib is = AddressWitnessScriptHash (Sum256 lib (RedeemScript is))"

definition GetScriptPubKey :: "'key Library \<Rightarrow> InheritanceScript \<Rightarrow> error + byte list" where
  "GetScriptPubKey lib is = PayToAddrScript (Some (GetP2WSHAddress lib is))"

subsection \<open>The transaction builder\<close>

record UTXO =
  TxHash :: hash256
  Vout :: uint32
  Amount :: int64
  UtxoPkScript :: "byte list"

record TransactionBuilder =
  fee :: int64

definition BuildOwnerWithdrawTx ::
  "TransactionBuilder \<Rightarrow> UTXO \<Rightarrow> Address option \<Rightarrow> byte list \<Rightarrow> error + MsgTx" where
  "BuildOwnerWithdrawTx tb contractUTXO destinationAddr redeemScript =
     (let tx = NewMsgTx TxVersion;
          outPoint = NewOutPoint (TxHash contractUTXO) (Vout contractUTXO);
          txIn = NewTxIn outPoint [] [];
          tx = AddTxIn txIn tx;
          outputAmount = Amount contractUTXO - fee tb
      in if sint outputAmount \<le> 0 then Inl InsufficientFunds
         else case PayToAddrScript destinationAddr of
                Inl e \<Rightarrow> Inl (wrapErr FailedToCreateDestinationScript e)
              | Inr destinationScript \<Rightarrow>
                  let txOut = NewTxOut outputAmount destinationScript;
                      tx = AddTxOut txOut tx
                  in Inr tx)"

definition BuildInheritorWithdrawTx ::
  "TransactionBuilder \<Rightarrow> UTXO \<Rightarrow> Address option \<Rightarrow> byte list \<Rightarrow> int64 \<Rightarrow> error + MsgTx" where
  "BuildInheritorWithdrawTx tb contractUTXO destinationAddr redeemScript relativeTimelock =
     (let tx = NewMsgTx TxVersion;
          outPoint = NewOutPoint (TxHash contractUTXO) (Vout contractUTXO);
          txIn = NewTxIn outPoint [] [];
          txIn = txIn\<lparr>Sequence := ucast relativeTimelock\<rparr>;
          tx = AddTxIn txIn tx;
          outputAmount = Amount contractUTXO - fee tb
      in if sint outputAmount \<le> 0 then Inl InsufficientFunds
         else case PayToAddrScript destinationAddr of
                Inl e \<Rightarrow> Inl (wrapErr FailedToCreateDestinationScript e)
              | Inr destinationScript \<Rightarrow>
                  let txOut = NewTxOut outputAmount destinationScript;
                      tx = AddTxOut txOut tx
                  in Inr tx)"

text \<open>
  Both signing functions start with the same lines: the output script they call
  P2WSH is built from \<open>btcutil.Hash160\<close> of the redeem script and registered, with the
  UTXO's amount, as the previous output of the UTXO's outpoint.
\<close>

definition signingPrevOutScript :: "'key Library \<Rightarrow> byte list \<Rightarrow> error + byte list" where
  "signingPrevOutScript lib redeemScript =
     (let scriptHash = bytesOf (Hash160 lib redeemScript)
      in Script (AddData scriptHash (AddOp OP_0 NewScriptBuilder)))"

definition setFirstWitness :: "byte list list \<Rightarrow> MsgTx \<Rightarrow> error + MsgTx" where
  "setFirstWitness witness tx =
     (case TxIn tx of
        [] \<Rightarrow> Inl RuntimePanic
      | first # others \<Rightarrow> Inr (tx\<lparr>TxIn := first\<lparr>Witness := witness\<rparr> # others\<rparr>))"

definition SignOwnerTransaction ::
  "'key Library \<Rightarrow> MsgTx \<Rightarrow> UTXO \<Rightarrow> byte list \<Rightarrow> 'key \<Rightarrow> error + MsgTx" where
  "SignOwnerTransaction lib tx contractUTXO redeemScript ownerPrivateKey =
     (let prevOutFetcher = NewMultiPrevOutFetcher in
      case signingPrevOutScript lib redeemScript of
        Inl e \<Rightarrow> Inl (wrapErr FailedToCreateP2WSHScript e)
      | Inr p2wshScript \<Rightarrow>
          let prevOut = \<lparr>Value = Amount contractUTXO, PkScript = p2wshScript\<rparr>;
              prevOutFetcher =
                AddPrevOut (NewOutPoint (TxHash contractUTXO) (Vout contractUTXO)) prevOut
                  prevOutFetcher;
              sigHashes = NewTxSigHashes tx prevOutFetcher;
              hashType = SigHashAll
          in case CalcWitnessSigHash lib redeemScript sigHashes hashType tx 0
                    (Amount contractUTXO) of
               Inl e \<Rightarrow> Inl (wrapErr FailedToCalculateSignatureHash e)
             | Inr sigHash \<Rightarrow>
                 let sigBytes = SignSerialize lib ownerPrivateKey sigHash @ [ucast hashType];
                     witness = [sigBytes, [OP_1], redeemScript]
                 in setFirstWitness witness tx)"

definition SignInheritorTransaction ::
  "'key Library \<Rightarrow> MsgTx \<Rightarrow> UTXO \<Rightarrow> byte list \<Rightarrow> 'key \<Rightarrow> error + MsgTx" where
  "SignInheritorTransaction lib tx contractUTXO redeemScript inheritorPrivateKey =
     (let prevOutFetcher = NewMultiPrevOutFetcher in
      case signingPrevOutScript lib redeemScript of
        Inl e \<Rightarrow> Inl (wrapErr FailedToCreateP2WSHScript e)
      | Inr p2wshScript \<Rightarrow>
          let prevOut = \<lparr>Value = Amount contractUTXO, PkScript = p2wshScript\<rparr>;
              prevOutFetcher =
                AddPrevOut (NewOutPoint (TxHash contractUTXO) (Vout contractUTXO)) prevOut
                  prevOutFetcher;
              sigHashes = NewTxSigHashes tx prevOutFetcher;
              hashType = SigHashAll
          in case CalcWitnessSigHash lib redeemScript sigHashes hashType tx 0
                    (Amount contractUTXO) of
               Inl e \<Rightarrow> Inl (wrapErr FailedToCalculateSignatureHash e)
             | Inr sigHash \<Rightarrow>
                 let sigBytes = SignSerialize lib inheritorPrivateKey sigHash @ [ucast hashType];
                     witness = [sigBytes, [OP_0], redeemScript]
                 in setFirstWitness witness tx)"

text \<open>\<open>ValidateTransaction\<close>: the loop adds the output values in \<open>int64\<close>.\<close>

fun sumOutputs :: "TxOut list \<Rightarrow> int64 \<Rightarrow> int64" where
  "sumOutputs [] totalOut = totalOut"
| "sumOutputs (out # outs) totalOut = sumOutputs outs (totalOut + Value out)"

definition ValidateTransaction :: "MsgTx option \<Rightarrow> error + unit" where
  "ValidateTransaction txp =
     (case txp of
        None \<Rightarrow> Inl TransactionIsNil
      | Some tx \<Rightarrow>
          if length (TxIn tx) = 0 then Inl TransactionHasNoInputs
          else if length (TxOut tx) = 0 then Inl TransactionHasNoOutputs
          else
            let totalOut = sumOutputs (TxOut tx) 0 in
            if sint totalOut < 0 then Inl TransactionHasNegativeOutputValue
            else Inr ())"


section \<open>Arithmetic on 64-bit words\<close>

lemma sint_mult_no_overflow:
  fixes a b :: int64
  assumes "- (2 ^ 63) \<le> sint a * sint b" "sint a * sint b < 2 ^ 63"
  shows "sint (a * b) = sint a * sint b"
  using assms by (simp add: sint_word_mult signed_take_bit_int_eq_self)

lemma sint_of_int_small:
  fixes k :: int
  assumes "- (2 ^ 63) \<le> k" "k < 2 ^ 63"
  shows "sint (word_of_int k :: int64) = k"
proof -
  have "sint (word_of_int k :: int64) = signed_take_bit 63 k"
    by (simp add: sint_sbintrunc')
  also have "\<dots> = k"
    by (rule signed_take_bit_int_eq_self) (use assms in simp_all)
  finally show ?thesis .
qed

lemma sint_eq_uint_small:
  fixes w :: int64
  assumes "uint w < 2 ^ 63"
  shows "sint w = uint w"
proof -
  have "sint w = signed_take_bit 63 (uint w)" by (simp add: sint_uint)
  also have "\<dots> = uint w"
  proof (rule signed_take_bit_int_eq_self)
    have "- (2 ^ 63) \<le> (0::int)" by simp
    also have "0 \<le> uint w" by simp
    finally show "- (2 ^ 63) \<le> uint w" .
    show "uint w < 2 ^ 63" using assms .
  qed
  finally show ?thesis .
qed

section \<open>The timelock encoder\<close>

lemma or_and_low:
  fixes x :: int64
  shows "(x OR 0x400000) AND 0x3FFFFF = take_bit 22 x"
proof -
  have m: "(0x3FFFFF :: int64) = mask 22" by (simp add: mask_eq_exp_minus_1)
  have p: "(0x400000 :: int64) = push_bit 22 1" by simp
  have "(x OR push_bit 22 1) AND mask 22 = take_bit 22 x"
    by (auto simp add: bit_eq_iff bit_simps simp del: push_bit_of_1)
  then show ?thesis by (simp only: m p)
qed

lemma low_bits_bound:
  "0 \<le> sint (calculateRelativeTimelock d AND 0x3FFFFF) \<and>
   sint (calculateRelativeTimelock d AND 0x3FFFFF) < 2 ^ 22"
proof -
  let ?w = "take_bit 22 (int64_quot (d * 24 * 60 * 60) 512)"
  have e: "calculateRelativeTimelock d AND 0x3FFFFF = ?w"
    using or_and_low by (simp add: calculateRelativeTimelock_def)
  have u: "uint ?w < 2 ^ 22"
    by (metis (no_types, lifting) take_bit_int_less_exp unsigned_take_bit_eq)
  then have "sint ?w = uint ?w"
    by (intro sint_eq_uint_small) simp
  with u show ?thesis unfolding e by simp
qed

lemma intervals_small_days:
  fixes d :: int64
  assumes "0 \<le> sint d" "sint d \<le> 24855"
  shows "int64_quot (d * 24 * 60 * 60) 512 = word_of_int ((sint d * 86400) div 512)"
proof -
  have e: "d * 24 * 60 * 60 = d * 86400" by simp
  have "sint (d * 86400) = sint d * sint (86400 :: int64)"
    using assms by (intro sint_mult_no_overflow) auto
  then have "sint (d * 24 * 60 * 60) = sint d * 86400" unfolding e by simp
  then show ?thesis using assms
    by (simp add: int64_quot_def signed_divide_int_def sgn_if)
qed

lemma low_bits_small_days:
  fixes d :: int64
  assumes "0 \<le> sint d" "sint d \<le> 24855"
  shows "sint (calculateRelativeTimelock d AND 0x3FFFFF) = (sint d * 86400) div 512"
proof -
  let ?q = "(sint d * 86400) div 512"
  have q: "0 \<le> ?q" "?q < 2 ^ 22" using assms by auto
  have "calculateRelativeTimelock d AND 0x3FFFFF = take_bit 22 (word_of_int ?q :: int64)"
    using intervals_small_days[OF assms] or_and_low by (simp add: calculateRelativeTimelock_def)
  also have "\<dots> = word_of_int (take_bit 22 ?q)"
    by (simp add: take_bit_of_int)
  also have "\<dots> = word_of_int ?q"
    using q by (simp add: take_bit_int_eq_self)
  finally show ?thesis using q by (simp add: sint_of_int_small)
qed

lemma bit22_set: "calculateRelativeTimelock d AND 0x400000 = 0x400000"
  unfolding calculateRelativeTimelock_def Let_def
  by (simp add: bit_eq_iff bit_simps)

text \<open>
  C5, as amended. For every day count the encoded timelock has bit 22 set. For a
  non-negative day count, the low 22 bits equal \<open>(days * 86400) div 512\<close> exactly when
  \<open>days \<le> 24855\<close>, that is when the number of intervals fits in 22 bits; for larger day
  counts the encoder neither clamps nor masks, and the interval count runs into bit 22
  and above.
\<close>

theorem calculateRelativeTimelock_bits:
  "calculateRelativeTimelock days AND 0x400000 = 0x400000 \<and>
   (0 \<le> sint days \<longrightarrow>
      (sint (calculateRelativeTimelock days AND 0x3FFFFF) = (sint days * 86400) div 512
         \<longleftrightarrow> sint days \<le> 24855))"
proof (intro conjI impI)
  show "calculateRelativeTimelock days AND 0x400000 = 0x400000" by (rule bit22_set)
next
  assume nn: "0 \<le> sint days"
  show "sint (calculateRelativeTimelock days AND 0x3FFFFF) = (sint days * 86400) div 512
          \<longleftrightarrow> sint days \<le> 24855"
  proof
    assume "sint (calculateRelativeTimelock days AND 0x3FFFFF) = (sint days * 86400) div 512"
    then have "(sint days * 86400) div 512 < 2 ^ 22"
      using low_bits_bound[of days] by simp
    then show "sint days \<le> 24855" by simp
  next
    assume "sint days \<le> 24855"
    with nn show "sint (calculateRelativeTimelock days AND 0x3FFFFF) = (sint days * 86400) div 512"
      by (rule low_bits_small_days)
  qed
qed

text \<open>The amended C5 at 365 days, the day count of the repository's tests.\<close>

theorem calculateRelativeTimelock_bits_witness:
  "(0::int) \<le> sint (365 :: int64) \<and>
   calculateRelativeTimelock 365 AND 0x400000 = 0x400000 \<and>
   sint (calculateRelativeTimelock 365 AND 0x3FFFFF) = (365 * 86400) div 512"
  using calculateRelativeTimelock_bits [of 365] by simp

text \<open>
  C5 as stated fails at 24856 days: the interval count is 4194450, which needs 23
  bits, and the low 22 bits of the encoding are 146.
\<close>

theorem calculateRelativeTimelock_bits_counterexample:
  "(0::int) \<le> sint (24856 :: int64) \<and>
   sint (calculateRelativeTimelock 24856 AND 0x3FFFFF) = 146 \<and>
   (sint (24856 :: int64) * 86400) div 512 = 4194450"
  by (simp add: calculateRelativeTimelock_def int64_quot_def signed_divide_int_def)

text \<open>
  C8, as amended. A day count of 180 encodes to \<open>0x4076A7\<close>: the interval count is
  \<open>180 * 86400 div 512 = 30375 = 0x76A7\<close>, and bit 22 is set on top of it.
\<close>

theorem calculateRelativeTimelock_180:
  "calculateRelativeTimelock 180 = 0x4076A7 \<and>
   calculateRelativeTimelock 180 = 30375 OR 0x400000 \<and>
   (180 * 86400) div 512 = (30375 :: int)"
  by (simp add: calculateRelativeTimelock_def int64_quot_def signed_divide_int_def)

text \<open>C8 as stated names \<open>0x407647\<close>, which is not the value the encoder returns.\<close>

theorem calculateRelativeTimelock_180_counterexample:
  "calculateRelativeTimelock 180 \<noteq> 0x407647"
  by (simp add: calculateRelativeTimelock_def int64_quot_def signed_divide_int_def)

end
